theory Spec2Isabelle
  imports Main "HOL-Library.AList"
begin

section \<open>The syntax tree provider of \<open>src/Source/commands/syntaxTree.ts\<close>\<close>

subsection \<open>Data of the host editor\<close>

text \<open>
  A \<open>Uri\<close> of the host is used by the provider only through \<open>toString()\<close>, so it is
  represented by that canonical string. A text document carries its uri (and a language
  id, which only the external classifier \<open>isBiomeEditor\<close> may look at); a text editor
  carries its document.
\<close>

datatype Uri = Uri (toString: string)

type_synonym FilePath = string

record TextDocument =
  uri :: Uri
  languageId :: string

record TextEditor =
  document :: TextDocument

datatype TextDocumentChangeEvent = TextDocumentChangeEvent (event_document: TextDocument)

record CancellationToken =
  isCancellationRequested :: bool

datatype DocumentLink = DocumentLink Uri

text \<open>The parameters of the syntax tree request: \<open>{ textDocument: { uri: documentUri } }\<close>.\<close>

record SyntaxTreeParams =
  textDocument_uri :: string

subsection \<open>The cache: a JavaScript \<open>Map\<close>\<close>

text \<open>
  A \<open>Map\<close> keeps its entries in insertion order, one per key. It is an association list:
  \<open>get\<close> is the lookup, \<open>set\<close> replaces the value of a present key where it stands and
  appends an absent one, \<open>delete\<close> removes the key, \<open>clear\<close> removes everything.
\<close>

type_synonym ('k, 'v) js_map = "('k \<times> 'v) list"

definition Map_new :: "('k, 'v) js_map" where
  "Map_new = []"

definition Map_get :: "('k, 'v) js_map \<Rightarrow> 'k \<Rightarrow> 'v option" where
  "Map_get m k = map_of m k"

definition Map_set :: "('k, 'v) js_map \<Rightarrow> 'k \<Rightarrow> 'v \<Rightarrow> ('k, 'v) js_map" where
  "Map_set m k v = AList.update k v m"

definition Map_delete :: "('k, 'v) js_map \<Rightarrow> 'k \<Rightarrow> ('k, 'v) js_map" where
  "Map_delete m k = AList.delete k m"

definition Map_clear :: "('k, 'v) js_map \<Rightarrow> ('k, 'v) js_map" where
  "Map_clear m = []"

subsection \<open>The provider's state\<close>

text \<open>
  Modelled from the spec: the class \<open>SyntaxTreeDocument\<close> is imported from
  \<open>./syntaxTreeDocument\<close>, which is not among the sources. The spec's cache entry holds
  the artifact text of the response, and the content request resolves with that text, so
  the object built by \<open>new SyntaxTreeDocument(uri, result)\<close> keeps both arguments and
  its \<open>value\<close> is the \<open>result\<close>.
\<close>

record SyntaxTreeDocument =
  doc_uri :: Uri
  doc_value :: string

text \<open>
  Of the session the provider reads \<open>session.editor\<close> and calls
  \<open>session.client.sendRequest\<close>. The calls to \<open>sendRequest\<close> are recorded, in order,
  with the parameters and the token they passed.
\<close>

record Session =
  editor :: "TextEditor option"
  client_sent :: "(SyntaxTreeParams \<times> CancellationToken) list"

text \<open>
  The provider: its session, the uris its \<open>eventEmitter\<close> has fired (in order) and the
  \<open>documents\<close> cache.
\<close>

record SyntaxTreeProvider =
  session :: Session
  eventEmitter :: "Uri list"
  documents :: "(FilePath, SyntaxTreeDocument) js_map"

definition provider_uri :: Uri where
  "provider_uri = Uri ''biome:syntax_tree/tree.rast''"

definition constructor :: "Session \<Rightarrow> SyntaxTreeProvider" where
  "constructor s = \<lparr>session = s, eventEmitter = [], documents = Map_new\<rparr>"

definition fire :: "Uri \<Rightarrow> SyntaxTreeProvider \<Rightarrow> SyntaxTreeProvider" where
  "fire u this = this\<lparr>eventEmitter := eventEmitter this @ [u]\<rparr>"

subsection \<open>The lifecycle handlers\<close>

definition onDidChangeTextDocument ::
  "TextDocumentChangeEvent \<Rightarrow> SyntaxTreeProvider \<Rightarrow> SyntaxTreeProvider" where
  "onDidChangeTextDocument event this =
     fire provider_uri
       (this\<lparr>documents := Map_delete (documents this) (toString (uri (event_document event)))\<rparr>)"

text \<open>The classifier \<open>isBiomeEditor\<close> comes from \<open>../utils\<close>; it is a parameter.\<close>

definition onDidChangeActiveTextEditor ::
  "(TextEditor \<Rightarrow> bool) \<Rightarrow> TextEditor option \<Rightarrow> SyntaxTreeProvider \<Rightarrow> SyntaxTreeProvider" where
  "onDidChangeActiveTextEditor isBiomeEditor ed this =
     (case ed of
        None \<Rightarrow> this
      | Some e \<Rightarrow> if isBiomeEditor e then fire provider_uri this else this)"

definition onDidCloseTextDocument ::
  "TextDocument option \<Rightarrow> SyntaxTreeProvider \<Rightarrow> SyntaxTreeProvider" where
  "onDidCloseTextDocument doc this =
     (case doc of
        None \<Rightarrow> this
      | Some d \<Rightarrow>
          fire provider_uri (this\<lparr>documents := Map_delete (documents this) (toString (uri d))\<rparr>))"

subsection \<open>The content request\<close>

text \<open>
  \<open>provideTextDocumentContent\<close> returns \<open>undefined\<close>, a string, or the promise
  \<open>sendRequest(...).then(...)\<close>. The promise is represented by what its callback
  captured: the \<open>uri\<close> argument and the \<open>documentUri\<close> computed before the request.
\<close>

record then_closure =
  closure_uri :: Uri
  closure_documentUri :: FilePath

datatype ProviderResult = Undefined | Immediate string | Thenable then_closure

definition provideTextDocumentContent ::
  "Uri \<Rightarrow> CancellationToken \<Rightarrow> SyntaxTreeProvider \<Rightarrow> ProviderResult \<times> SyntaxTreeProvider" where
  "provideTextDocumentContent u token this =
     (case editor (session this) of
        None \<Rightarrow> (Undefined, this)
      | Some ed \<Rightarrow>
          (let documentUri = toString (uri (document ed)) in
           case Map_get (documents this) documentUri of
             Some d \<Rightarrow> (Immediate (doc_value d), this)
           | None \<Rightarrow>
               (let params = \<lparr>textDocument_uri = documentUri\<rparr> in
                (Thenable \<lparr>closure_uri = u, closure_documentUri = documentUri\<rparr>,
                 this\<lparr>session := (session this)
                        \<lparr>client_sent := client_sent (session this) @ [(params, token)]\<rparr>\<rparr>))))"

text \<open>The callback passed to \<open>then\<close>, run when the request is fulfilled with \<open>result\<close>.\<close>

definition on_fulfilled ::
  "then_closure \<Rightarrow> string \<Rightarrow> SyntaxTreeProvider \<Rightarrow> string \<times> SyntaxTreeProvider" where
  "on_fulfilled c result this =
     (let d = \<lparr>doc_uri = closure_uri c, doc_value = result\<rparr> in
      (doc_value d, this\<lparr>documents := Map_set (documents this) (closure_documentUri c) d\<rparr>))"

text \<open>
  How a request ends: fulfilled with a result, or rejected, by an error of the service or
  by cancellation. \<open>then\<close> has no rejection callback, so a rejection is the outcome of
  the returned promise as it is, and the callback does not run.
\<close>

datatype rejection = ServiceError string | RequestCancelled

datatype 'a settled = Fulfilled 'a | Rejected rejection

definition settle ::
  "then_closure \<Rightarrow> string settled \<Rightarrow> SyntaxTreeProvider \<Rightarrow> string settled \<times> SyntaxTreeProvider" where
  "settle c outcome this =
     (case outcome of
        Fulfilled result \<Rightarrow> (case on_fulfilled c result this of (v, this') \<Rightarrow> (Fulfilled v, this'))
      | Rejected r \<Rightarrow> (Rejected r, this))"

subsection \<open>Disposal and links\<close>

definition dispose :: "SyntaxTreeProvider \<Rightarrow> SyntaxTreeProvider" where
  "dispose this = this\<lparr>documents := Map_clear (documents this)\<rparr>"

definition provideDocumentLinks ::
  "TextDocument \<Rightarrow> SyntaxTreeProvider \<Rightarrow> DocumentLink list option" where
  "provideDocumentLinks doc this =
     (case Map_get (documents this) (toString (uri doc)) of
        Some d \<Rightarrow> Some []
      | None \<Rightarrow> None)"

subsection \<open>The provider among its events\<close>

text \<open>
  What can happen to a running provider: the three lifecycle events of the host, the
  session pointing at another editor, a content request, the settling of a request that
  is in flight, and disposal. Requests are numbered by their position in the record of
  \<open>sendRequest\<close> calls.
\<close>

datatype event =
    ChangeTextDocument TextDocumentChangeEvent
  | ChangeActiveTextEditor "TextEditor option"
  | CloseTextDocument "TextDocument option"
  | SessionEditor "TextEditor option"
  | ProvideContent Uri CancellationToken
  | RequestSettled nat "string settled"
  | DisposeProvider

text \<open>
  The journal says, newest first, which fetches were issued and how they ended, and
  which identities were removed from the cache (\<open>Cleared\<close>: all of them).
\<close>

datatype journal_note =
    Issued nat FilePath
  | Completed nat FilePath "string settled"
  | Invalidated FilePath
  | Cleared

record system =
  provider :: SyntaxTreeProvider
  inflight :: "(nat \<times> then_closure) list"
  journal :: "journal_note list"

definition boot :: "Session \<Rightarrow> system" where
  "boot s = \<lparr>provider = constructor s, inflight = [], journal = []\<rparr>"

fun step :: "(TextEditor \<Rightarrow> bool) \<Rightarrow> event \<Rightarrow> system \<Rightarrow> system" where
  "step isBiomeEditor (ChangeTextDocument e) sys =
     sys\<lparr>provider := onDidChangeTextDocument e (provider sys),
         journal := Invalidated (toString (uri (event_document e))) # journal sys\<rparr>"
| "step isBiomeEditor (ChangeActiveTextEditor ed) sys =
     sys\<lparr>provider := onDidChangeActiveTextEditor isBiomeEditor ed (provider sys)\<rparr>"
| "step isBiomeEditor (CloseTextDocument doc) sys =
     sys\<lparr>provider := onDidCloseTextDocument doc (provider sys),
         journal := (case doc of
                       None \<Rightarrow> journal sys
                     | Some d \<Rightarrow> Invalidated (toString (uri d)) # journal sys)\<rparr>"
| "step isBiomeEditor (SessionEditor ed) sys =
     sys\<lparr>provider := (provider sys)\<lparr>session := (session (provider sys))\<lparr>editor := ed\<rparr>\<rparr>\<rparr>"
| "step isBiomeEditor (ProvideContent u token) sys =
     (case provideTextDocumentContent u token (provider sys) of
        (Thenable c, this') \<Rightarrow>
          (let i = length (client_sent (session (provider sys))) in
           \<lparr>provider = this', inflight = inflight sys @ [(i, c)],
            journal = Issued i (closure_documentUri c) # journal sys\<rparr>)
      | (_, this') \<Rightarrow> sys\<lparr>provider := this'\<rparr>)"
| "step isBiomeEditor (RequestSettled i outcome) sys =
     (case map_of (inflight sys) i of
        None \<Rightarrow> sys
      | Some c \<Rightarrow>
          \<lparr>provider = snd (settle c outcome (provider sys)),
           inflight = AList.delete i (inflight sys),
           journal = Completed i (closure_documentUri c) outcome # journal sys\<rparr>)"
| "step isBiomeEditor DisposeProvider sys =
     sys\<lparr>provider := dispose (provider sys), journal := Cleared # journal sys\<rparr>"

fun run :: "(TextEditor \<Rightarrow> bool) \<Rightarrow> event list \<Rightarrow> system \<Rightarrow> system" where
  "run isBiomeEditor [] sys = sys"
| "run isBiomeEditor (ev # evs) sys = run isBiomeEditor evs (step isBiomeEditor ev sys)"

subsection \<open>Reading the journal\<close>

text \<open>The fetch issued last for an identity, if any.\<close>

fun last_issued :: "FilePath \<Rightarrow> journal_note list \<Rightarrow> nat option" where
  "last_issued D [] = None"
| "last_issued D (Issued i D' # ns) = (if D' = D then Some i else last_issued D ns)"
| "last_issued D (_ # ns) = last_issued D ns"

text \<open>
  Fetch \<open>i\<close> for \<open>D\<close> was fulfilled, and \<open>D\<close> has not been invalidated since it was:
  going back from now, the fulfilment is met before any removal of \<open>D\<close>.
\<close>

fun succeeded_since :: "nat \<Rightarrow> FilePath \<Rightarrow> journal_note list \<Rightarrow> bool" where
  "succeeded_since i D [] = False"
| "succeeded_since i D (Completed j D' (Fulfilled r) # ns) =
     (if j = i \<and> D' = D then True else succeeded_since i D ns)"
| "succeeded_since i D (Invalidated D' # ns) = (if D' = D then False else succeeded_since i D ns)"
| "succeeded_since i D (Cleared # ns) = False"
| "succeeded_since i D (_ # ns) = succeeded_since i D ns"

text \<open>\<open>D\<close> has not been invalidated since fetch \<open>i\<close> for \<open>D\<close> was issued.\<close>

fun valid_since_issue :: "nat \<Rightarrow> FilePath \<Rightarrow> journal_note list \<Rightarrow> bool" where
  "valid_since_issue i D [] = False"
| "valid_since_issue i D (Issued j D' # ns) =
     (if j = i \<and> D' = D then True else valid_since_issue i D ns)"
| "valid_since_issue i D (Invalidated D' # ns) =
     (if D' = D then False else valid_since_issue i D ns)"
| "valid_since_issue i D (Cleared # ns) = False"
| "valid_since_issue i D (_ # ns) = valid_since_issue i D ns"

text \<open>
  The spec's reading of a cache entry for \<open>D\<close>: the fetch issued last for \<open>D\<close> succeeded
  and \<open>D\<close> has not been invalidated since that fetch completed.
\<close>

definition last_fetch_succeeded :: "FilePath \<Rightarrow> journal_note list \<Rightarrow> bool" where
  "last_fetch_succeeded D ns =
     (case last_issued D ns of None \<Rightarrow> False | Some i \<Rightarrow> succeeded_since i D ns)"

fun fetch_ids :: "FilePath \<Rightarrow> journal_note list \<Rightarrow> nat list" where
  "fetch_ids D [] = []"
| "fetch_ids D (Issued i D' # ns) = (if D' = D then i # fetch_ids D ns else fetch_ids D ns)"
| "fetch_ids D (_ # ns) = fetch_ids D ns"

text \<open>The same of some fetch issued for \<open>D\<close>, not necessarily the last.\<close>

definition some_fetch_succeeded :: "FilePath \<Rightarrow> journal_note list \<Rightarrow> bool" where
  "some_fetch_succeeded D ns = list_ex (\<lambda>i. succeeded_since i D ns) (fetch_ids D ns)"

definition entries_for :: "FilePath \<Rightarrow> (FilePath, 'v) js_map \<Rightarrow> nat" where
  "entries_for D m = length (filter (\<lambda>p. fst p = D) m)"

text \<open>What every step keeps true.\<close>

definition sound :: "system \<Rightarrow> bool" where
  "sound sys \<longleftrightarrow>
     distinct (map fst (documents (provider sys))) \<and>
     (\<forall>D. Map_get (documents (provider sys)) D \<noteq> None \<longrightarrow>
          some_fetch_succeeded D (journal sys)) \<and>
     (\<forall>i c. (i, c) \<in> set (inflight sys) \<longrightarrow>
          Issued i (closure_documentUri c) \<in> set (journal sys))"

subsection \<open>Events that leave an identity unfilled\<close>

text \<open>
  The event fulfils a request in flight for \<open>D\<close>: the only event whose handling writes an
  entry for \<open>D\<close>.
\<close>

fun fulfils :: "FilePath \<Rightarrow> event \<Rightarrow> system \<Rightarrow> bool" where
  "fulfils D (RequestSettled i (Fulfilled r)) sys =
     (case map_of (inflight sys) i of
        None \<Rightarrow> False
      | Some c \<Rightarrow> closure_documentUri c = D)"
| "fulfils D _ sys = False"

text \<open>No event of the sequence, handled in turn from \<open>sys\<close>, fulfils a request for \<open>D\<close>.\<close>

fun quiet_for :: "FilePath \<Rightarrow> (TextEditor \<Rightarrow> bool) \<Rightarrow> event list \<Rightarrow> system \<Rightarrow> bool" where
  "quiet_for D isBiomeEditor [] sys = True"
| "quiet_for D isBiomeEditor (ev # evs) sys =
     (if fulfils D ev sys then False
      else quiet_for D isBiomeEditor evs (step isBiomeEditor ev sys))"

subsection \<open>Concrete documents and runs\<close>

definition doc_a :: TextDocument where
  "doc_a = \<lparr>uri = Uri ''file:///a.ts'', languageId = ''typescript''\<rparr>"

definition doc_b :: TextDocument where
  "doc_b = \<lparr>uri = Uri ''file:///b.py'', languageId = ''python''\<rparr>"

definition ed_a :: TextEditor where
  "ed_a = \<lparr>document = doc_a\<rparr>"

definition ed_b :: TextEditor where
  "ed_b = \<lparr>document = doc_b\<rparr>"

definition accepts_typescript :: "TextEditor \<Rightarrow> bool" where
  "accepts_typescript e = (languageId (document e) = ''typescript'')"

definition token0 :: CancellationToken where
  "token0 = \<lparr>isCancellationRequested = False\<rparr>"

definition tree_a :: SyntaxTreeDocument where
  "tree_a = \<lparr>doc_uri = provider_uri, doc_value = ''TREE(a)''\<rparr>"

definition tree_b :: SyntaxTreeDocument where
  "tree_b = \<lparr>doc_uri = provider_uri, doc_value = ''TREE(b)''\<rparr>"

definition idle :: Session where
  "idle = \<lparr>editor = None, client_sent = []\<rparr>"

definition on_a :: Session where
  "on_a = \<lparr>editor = Some ed_a, client_sent = []\<rparr>"

definition on_b :: Session where
  "on_b = \<lparr>editor = Some ed_b, client_sent = []\<rparr>"

definition fresh_on_a :: SyntaxTreeProvider where
  "fresh_on_a = constructor on_a"

definition cached_ab :: SyntaxTreeProvider where
  "cached_ab = \<lparr>session = on_a, eventEmitter = [],
                documents = [(''file:///a.ts'', tree_a), (''file:///b.py'', tree_b)]\<rparr>"

definition cached_b_on_b :: SyntaxTreeProvider where
  "cached_b_on_b = \<lparr>session = on_b, eventEmitter = [], documents = [(''file:///b.py'', tree_b)]\<rparr>"

text \<open>One fetch for \<open>a.ts\<close>, fulfilled.\<close>

definition plain_run :: "event list" where
  "plain_run =
     [SessionEditor (Some ed_a),
      ProvideContent provider_uri token0,
      RequestSettled 0 (Fulfilled ''TREE(a)'')]"

text \<open>
  Two fetches for \<open>a.ts\<close> in flight at once, an edit of \<open>a.ts\<close>, then the second
  fetch is cancelled and the first is fulfilled.
\<close>

definition overlapping_run :: "event list" where
  "overlapping_run =
     [SessionEditor (Some ed_a),
      ProvideContent provider_uri token0,
      ProvideContent provider_uri token0,
      ChangeTextDocument (TextDocumentChangeEvent doc_a),
      RequestSettled 1 (Rejected RequestCancelled),
      RequestSettled 0 (Fulfilled ''TREE(a)'')]"

text \<open>A fetch for \<open>a.ts\<close> is in flight when \<open>a.ts\<close> is edited.\<close>

definition edit_in_flight :: "event list" where
  "edit_in_flight =
     [SessionEditor (Some ed_a),
      ProvideContent provider_uri token0,
      ChangeTextDocument (TextDocumentChangeEvent doc_a)]"

text \<open>The same, and then the fetch is fulfilled.\<close>

definition stale_fill :: "event list" where
  "stale_fill =
     [SessionEditor (Some ed_a),
      ProvideContent provider_uri token0,
      ChangeTextDocument (TextDocumentChangeEvent doc_a),
      RequestSettled 0 (Fulfilled ''STALE'')]"

text \<open>
  A fetch for \<open>b.py\<close> stays in flight while one for \<open>a.ts\<close> is issued and fulfilled.
\<close>

definition two_documents :: "event list" where
  "two_documents =
     [SessionEditor (Some ed_b),
      ProvideContent provider_uri token0,
      SessionEditor (Some ed_a),
      ProvideContent provider_uri token0,
      RequestSettled 1 (Fulfilled ''TREE(a)'')]"

section \<open>Properties\<close>

subsection \<open>The cache operations\<close>

lemma Map_get_delete: "Map_get (Map_delete m k) k' = (if k' = k then None else Map_get m k')"
  by (simp add: Map_get_def Map_delete_def delete_conv')

lemma Map_get_set: "Map_get (Map_set m k v) k' = (if k' = k then Some v else Map_get m k')"
  by (simp add: Map_get_def Map_set_def update_conv')

lemma distinct_Map_delete: "distinct (map fst m) \<Longrightarrow> distinct (map fst (Map_delete m k))"
  by (simp add: Map_delete_def distinct_delete)

lemma distinct_Map_set: "distinct (map fst m) \<Longrightarrow> distinct (map fst (Map_set m k v))"
  by (simp add: Map_set_def distinct_update)

lemma entries_for_distinct: "distinct (map fst m) \<Longrightarrow> entries_for D m \<le> 1"
  unfolding entries_for_def
  by (induction m) (auto simp: filter_empty_conv image_iff)

subsection \<open>The two paths of the content request\<close>

lemma provide_hit:
  assumes "editor (session this) = Some ed"
    and "Map_get (documents this) (toString (uri (document ed))) = Some d"
  shows "provideTextDocumentContent u token this = (Immediate (doc_value d), this)"
  using assms by (simp add: provideTextDocumentContent_def)

lemma provide_miss:
  assumes "editor (session this) = Some ed"
    and "Map_get (documents this) (toString (uri (document ed))) = None"
  shows "provideTextDocumentContent u token this =
    (Thenable \<lparr>closure_uri = u, closure_documentUri = toString (uri (document ed))\<rparr>,
     this\<lparr>session := (session this)
            \<lparr>client_sent := client_sent (session this) @
               [(\<lparr>textDocument_uri = toString (uri (document ed))\<rparr>, token)]\<rparr>\<rparr>)"
  using assms by (simp add: provideTextDocumentContent_def Let_def)

lemma settle_fulfilled:
  "settle c (Fulfilled result) this =
     (Fulfilled result,
      this\<lparr>documents := Map_set (documents this) (closure_documentUri c)
                            \<lparr>doc_uri = closure_uri c, doc_value = result\<rparr>\<rparr>)"
  by (simp add: settle_def on_fulfilled_def Let_def)

lemma settle_rejected: "settle c (Rejected r) this = (Rejected r, this)"
  by (simp add: settle_def)

subsection \<open>Invariant of the running provider\<close>

lemma fetch_ids_iff: "i \<in> set (fetch_ids D ns) \<longleftrightarrow> Issued i D \<in> set ns"
  by (induction D ns rule: fetch_ids.induct) auto

lemma some_fetch_succeeded_iff:
  "some_fetch_succeeded D ns \<longleftrightarrow> (\<exists>i. Issued i D \<in> set ns \<and> succeeded_since i D ns)"
  by (auto simp: some_fetch_succeeded_def list_ex_iff fetch_ids_iff)

lemma sound_boot: "sound (boot s)"
  by (simp add: sound_def boot_def constructor_def Map_new_def Map_get_def)

lemma provide_keeps_documents:
  "provideTextDocumentContent u token this = (r, this') \<Longrightarrow> documents this' = documents this"
  by (auto simp: provideTextDocumentContent_def Let_def split: option.splits)

lemma sound_step: "sound sys \<Longrightarrow> sound (step f ev sys)"
proof (cases ev)
  case (ChangeTextDocument e)
  assume "sound sys"
  then show ?thesis unfolding ChangeTextDocument sound_def some_fetch_succeeded_iff
    by (auto simp: onDidChangeTextDocument_def fire_def Map_get_delete distinct_Map_delete
        split: if_splits)
next
  case (ChangeActiveTextEditor ed)
  assume "sound sys"
  then show ?thesis unfolding ChangeActiveTextEditor sound_def
    by (auto simp: onDidChangeActiveTextEditor_def fire_def split: option.splits)
next
  case (CloseTextDocument doc)
  assume "sound sys"
  then show ?thesis unfolding CloseTextDocument sound_def some_fetch_succeeded_iff
    by (cases doc)
      (auto simp: onDidCloseTextDocument_def fire_def Map_get_delete distinct_Map_delete
        split: if_splits)
next
  case (SessionEditor ed)
  assume "sound sys"
  then show ?thesis unfolding SessionEditor sound_def by simp
next
  case (ProvideContent u token)
  assume a: "sound sys"
  obtain r this' where p: "provideTextDocumentContent u token (provider sys) = (r, this')"
    by (cases "provideTextDocumentContent u token (provider sys)")
  from provide_keeps_documents[OF p] have d: "documents this' = documents (provider sys)" .
  show ?thesis
  proof (cases r)
    case (Thenable c)
    with a p d show ?thesis unfolding ProvideContent sound_def some_fetch_succeeded_iff
      by (auto simp: Let_def)
  qed (use a p d in \<open>auto simp: ProvideContent sound_def\<close>)
next
  case (RequestSettled i outcome)
  assume a: "sound sys"
  show ?thesis
  proof (cases "map_of (inflight sys) i")
    case None
    with a show ?thesis by (simp add: RequestSettled)
  next
    case (Some c)
    then have "(i, c) \<in> set (inflight sys)" by (rule map_of_SomeD)
    with a have iss: "Issued i (closure_documentUri c) \<in> set (journal sys)"
      by (auto simp: sound_def)
    have sub: "\<And>j c'. (j, c') \<in> set (AList.delete i (inflight sys)) \<Longrightarrow> (j, c') \<in> set (inflight sys)"
      by (auto simp: AList.delete_eq)
    show ?thesis
    proof (cases outcome)
      case (Fulfilled res)
      with a Some iss sub show ?thesis unfolding RequestSettled sound_def some_fetch_succeeded_iff
        by (auto simp: settle_fulfilled Map_get_set distinct_Map_set split: if_splits)
    next
      case (Rejected rj)
      with a Some iss sub show ?thesis unfolding RequestSettled sound_def some_fetch_succeeded_iff
        by (auto simp: settle_rejected)
    qed
  qed
next
  case DisposeProvider
  assume "sound sys"
  then show ?thesis unfolding DisposeProvider sound_def
    by (auto simp: dispose_def Map_clear_def Map_get_def)
qed

lemma sound_run: "sound sys \<Longrightarrow> sound (run f evs sys)"
  by (induction evs arbitrary: sys) (auto intro: sound_step)

text \<open>Without a fulfilment for \<open>D\<close>, an absent entry for \<open>D\<close> stays absent.\<close>

lemma absent_step:
  assumes "Map_get (documents (provider sys)) D = None" and "\<not> fulfils D ev sys"
  shows "Map_get (documents (provider (step f ev sys))) D = None"
proof (cases ev)
  case (ChangeTextDocument e)
  with assms show ?thesis
    by (simp add: onDidChangeTextDocument_def fire_def Map_get_delete)
next
  case (ChangeActiveTextEditor ed)
  with assms show ?thesis
    by (simp add: onDidChangeActiveTextEditor_def fire_def split: option.splits)
next
  case (CloseTextDocument doc)
  with assms show ?thesis
    by (cases doc) (simp_all add: onDidCloseTextDocument_def fire_def Map_get_delete)
next
  case (SessionEditor ed)
  with assms show ?thesis by simp
next
  case (ProvideContent u token)
  obtain r this' where p: "provideTextDocumentContent u token (provider sys) = (r, this')"
    by (cases "provideTextDocumentContent u token (provider sys)")
  from provide_keeps_documents[OF p] have "documents this' = documents (provider sys)" .
  with assms p show ?thesis unfolding ProvideContent
    by (cases r) (simp_all add: Let_def)
next
  case (RequestSettled i outcome)
  show ?thesis
  proof (cases "map_of (inflight sys) i")
    case None
    with assms show ?thesis by (simp add: RequestSettled)
  next
    case (Some c)
    show ?thesis
    proof (cases outcome)
      case (Fulfilled res)
      with assms Some show ?thesis unfolding RequestSettled
        by (simp add: settle_fulfilled Map_get_set)
    next
      case (Rejected rj)
      with assms Some show ?thesis unfolding RequestSettled
        by (simp add: settle_rejected)
    qed
  qed
next
  case DisposeProvider
  then show ?thesis by (simp add: dispose_def Map_clear_def Map_get_def)
qed

lemma absent_run:
  "Map_get (documents (provider sys)) D = None \<Longrightarrow> quiet_for D f evs sys \<Longrightarrow>
   Map_get (documents (provider (run f evs sys))) D = None"
proof (induction evs arbitrary: sys)
  case Nil
  then show ?case by simp
next
  case (Cons ev evs)
  from Cons.prems(2) have q: "\<not> fulfils D ev sys" and r: "quiet_for D f evs (step f ev sys)"
    by (simp_all split: if_splits)
  from absent_step[OF Cons.prems(1) q] have "Map_get (documents (provider (step f ev sys))) D = None" .
  from Cons.IH[OF this r] show ?case by simp
qed

text \<open>The concrete runs, evaluated.\<close>

lemmas example_defs =
  doc_a_def doc_b_def ed_a_def ed_b_def token0_def tree_a_def tree_b_def idle_def on_a_def
  on_b_def fresh_on_a_def cached_ab_def cached_b_on_b_def accepts_typescript_def

lemma plain_run_end:
  "run accepts_typescript plain_run (boot idle) =
     \<lparr>provider = \<lparr>session = \<lparr>editor = Some ed_a,
                     client_sent = [(\<lparr>textDocument_uri = ''file:///a.ts''\<rparr>, token0)]\<rparr>,
                  eventEmitter = [], documents = [(''file:///a.ts'', tree_a)]\<rparr>,
      inflight = [],
      journal = [Completed 0 ''file:///a.ts'' (Fulfilled ''TREE(a)''), Issued 0 ''file:///a.ts'']\<rparr>"
  by (simp add: plain_run_def boot_def constructor_def Map_new_def example_defs
      provideTextDocumentContent_def Map_get_def Let_def settle_fulfilled Map_set_def)

lemma overlapping_run_end:
  "run accepts_typescript overlapping_run (boot idle) =
     \<lparr>provider = \<lparr>session = \<lparr>editor = Some ed_a,
                     client_sent = [(\<lparr>textDocument_uri = ''file:///a.ts''\<rparr>, token0),
                                    (\<lparr>textDocument_uri = ''file:///a.ts''\<rparr>, token0)]\<rparr>,
                  eventEmitter = [provider_uri], documents = [(''file:///a.ts'', tree_a)]\<rparr>,
      inflight = [],
      journal = [Completed 0 ''file:///a.ts'' (Fulfilled ''TREE(a)''),
                 Completed 1 ''file:///a.ts'' (Rejected RequestCancelled),
                 Invalidated ''file:///a.ts'',
                 Issued 1 ''file:///a.ts'', Issued 0 ''file:///a.ts'']\<rparr>"
  by (simp add: overlapping_run_def boot_def constructor_def Map_new_def example_defs
      provideTextDocumentContent_def Map_get_def Let_def settle_fulfilled settle_rejected
      Map_set_def Map_delete_def onDidChangeTextDocument_def fire_def)

lemma edit_in_flight_end:
  "run accepts_typescript edit_in_flight (boot idle) =
     \<lparr>provider = \<lparr>session = \<lparr>editor = Some ed_a,
                     client_sent = [(\<lparr>textDocument_uri = ''file:///a.ts''\<rparr>, token0)]\<rparr>,
                  eventEmitter = [provider_uri], documents = []\<rparr>,
      inflight = [(0, \<lparr>closure_uri = provider_uri, closure_documentUri = ''file:///a.ts''\<rparr>)],
      journal = [Invalidated ''file:///a.ts'', Issued 0 ''file:///a.ts'']\<rparr>"
  by (simp add: edit_in_flight_def boot_def constructor_def Map_new_def example_defs
      provideTextDocumentContent_def Map_get_def Let_def Map_delete_def
      onDidChangeTextDocument_def fire_def)

lemma stale_fill_end:
  "run accepts_typescript stale_fill (boot idle) =
     \<lparr>provider = \<lparr>session = \<lparr>editor = Some ed_a,
                     client_sent = [(\<lparr>textDocument_uri = ''file:///a.ts''\<rparr>, token0)]\<rparr>,
                  eventEmitter = [provider_uri],
                  documents = [(''file:///a.ts'', \<lparr>doc_uri = provider_uri, doc_value = ''STALE''\<rparr>)]\<rparr>,
      inflight = [],
      journal = [Completed 0 ''file:///a.ts'' (Fulfilled ''STALE''),
                 Invalidated ''file:///a.ts'', Issued 0 ''file:///a.ts'']\<rparr>"
  by (simp add: stale_fill_def boot_def constructor_def Map_new_def example_defs
      provideTextDocumentContent_def Map_get_def Let_def Map_delete_def Map_set_def
      onDidChangeTextDocument_def fire_def settle_fulfilled)

lemma two_documents_end:
  "run accepts_typescript two_documents (boot idle) =
     \<lparr>provider = \<lparr>session = \<lparr>editor = Some ed_a,
                     client_sent = [(\<lparr>textDocument_uri = ''file:///b.py''\<rparr>, token0),
                                    (\<lparr>textDocument_uri = ''file:///a.ts''\<rparr>, token0)]\<rparr>,
                  eventEmitter = [], documents = [(''file:///a.ts'', tree_a)]\<rparr>,
      inflight = [(0, \<lparr>closure_uri = provider_uri, closure_documentUri = ''file:///b.py''\<rparr>)],
      journal = [Completed 1 ''file:///a.ts'' (Fulfilled ''TREE(a)''),
                 Issued 1 ''file:///a.ts'', Issued 0 ''file:///b.py'']\<rparr>"
  by (simp add: two_documents_def boot_def constructor_def Map_new_def example_defs
      provideTextDocumentContent_def Map_get_def Let_def Map_set_def settle_fulfilled)

subsection \<open>The claims\<close>

text \<open>
  C1. When the active document's identity has an entry in the cache,
  \<open>provideTextDocumentContent\<close> returns exactly the cached text; the provider is left as
  it was, so no request has been sent to the service.
\<close>

theorem cached_document_is_shown_without_request:
  assumes "editor (session this) = Some ed"
    and "Map_get (documents this) (toString (uri (document ed))) = Some d"
  shows "fst (provideTextDocumentContent u token this) = Immediate (doc_value d) \<and>
         snd (provideTextDocumentContent u token this) = this \<and>
         client_sent (session (snd (provideTextDocumentContent u token this))) =
           client_sent (session this)"
  using provide_hit[OF assms] by simp

theorem cached_document_is_shown_without_request_witness:
  "editor (session cached_ab) = Some ed_a \<and>
   Map_get (documents cached_ab) (toString (uri (document ed_a))) = Some tree_a \<and>
   provideTextDocumentContent provider_uri token0 cached_ab = (Immediate ''TREE(a)'', cached_ab) \<and>
   client_sent (session (snd (provideTextDocumentContent provider_uri token0 cached_ab))) = []"
proof -
  have e: "editor (session cached_ab) = Some ed_a"
    by (simp add: cached_ab_def on_a_def)
  have g: "Map_get (documents cached_ab) (toString (uri (document ed_a))) = Some tree_a"
    by (simp add: cached_ab_def ed_a_def doc_a_def Map_get_def)
  have v: "doc_value tree_a = ''TREE(a)''" by (simp add: tree_a_def)
  have s: "client_sent (session cached_ab) = []" by (simp add: cached_ab_def on_a_def)
  from cached_document_is_shown_without_request[OF e g, of provider_uri token0] e g v s
  show ?thesis by (simp add: prod_eq_iff)
qed

text \<open>
  C2, as the spec states it, fails. In \<open>stale_fill\<close> a fetch for \<open>a.ts\<close> is in flight
  when the document-changed handler runs for \<open>a.ts\<close>. Right after the handler the cache
  has no entry for \<open>a.ts\<close>; then the fetch is fulfilled and its callback stores the
  result. The next content request, with \<open>a.ts\<close> active, returns the stored text and
  sends no request.
\<close>

theorem stale_fetch_refills_cache_counterexample:
  "provider (run accepts_typescript edit_in_flight (boot idle)) =
     onDidChangeTextDocument (TextDocumentChangeEvent doc_a)
       (provider (run accepts_typescript
          [SessionEditor (Some ed_a), ProvideContent provider_uri token0] (boot idle))) \<and>
   Map_get (documents (provider (run accepts_typescript edit_in_flight (boot idle))))
     ''file:///a.ts'' = None \<and>
   run accepts_typescript stale_fill (boot idle) =
     step accepts_typescript (RequestSettled 0 (Fulfilled ''STALE''))
       (run accepts_typescript edit_in_flight (boot idle)) \<and>
   editor (session (provider (run accepts_typescript stale_fill (boot idle)))) = Some ed_a \<and>
   toString (uri (document ed_a)) = ''file:///a.ts'' \<and>
   provideTextDocumentContent provider_uri token0
       (provider (run accepts_typescript stale_fill (boot idle))) =
     (Immediate ''STALE'', provider (run accepts_typescript stale_fill (boot idle))) \<and>
   client_sent (session (snd (provideTextDocumentContent provider_uri token0
       (provider (run accepts_typescript stale_fill (boot idle)))))) =
     client_sent (session (provider (run accepts_typescript stale_fill (boot idle))))"
proof -
  have pre: "provider (run accepts_typescript
          [SessionEditor (Some ed_a), ProvideContent provider_uri token0] (boot idle)) =
     \<lparr>session = \<lparr>editor = Some ed_a,
                     client_sent = [(\<lparr>textDocument_uri = ''file:///a.ts''\<rparr>, token0)]\<rparr>,
                  eventEmitter = [], documents = []\<rparr>"
    by (simp add: boot_def constructor_def Map_new_def example_defs
      provideTextDocumentContent_def Map_get_def Let_def)
  show ?thesis
    unfolding pre edit_in_flight_end stale_fill_end
    by (simp add: Map_get_def onDidChangeTextDocument_def fire_def Map_delete_def
        settle_fulfilled Map_set_def ed_a_def doc_a_def provideTextDocumentContent_def Let_def)
qed

text \<open>
  C2, amended. After the document-changed handler, or the document-closed handler, has run
  for a document of identity \<open>D\<close>, the cache has no entry for \<open>D\<close>, and it has none
  after any further events among which no request for \<open>D\<close> is fulfilled; a content
  request made then, with \<open>D\<close> the active document, sends exactly one request, for \<open>D\<close>,
  with the caller's token.
\<close>

theorem invalidated_document_is_fetched_once:
  assumes "provider sys = onDidChangeTextDocument event this \<and>
             D = toString (uri (event_document event))
         \<or> provider sys = onDidCloseTextDocument (Some doc) this \<and> D = toString (uri doc)"
    and "quiet_for D isBiomeEditor evs sys"
  shows "Map_get (documents (provider sys)) D = None \<and>
         Map_get (documents (provider (run isBiomeEditor evs sys))) D = None \<and>
         (editor (session (provider (run isBiomeEditor evs sys))) = Some ed \<and>
          toString (uri (document ed)) = D \<longrightarrow>
            fst (provideTextDocumentContent u token (provider (run isBiomeEditor evs sys))) =
              Thenable \<lparr>closure_uri = u, closure_documentUri = D\<rparr> \<and>
            client_sent (session (snd (provideTextDocumentContent u token
                (provider (run isBiomeEditor evs sys))))) =
              client_sent (session (provider (run isBiomeEditor evs sys))) @
                [(\<lparr>textDocument_uri = D\<rparr>, token)])"
proof -
  from assms(1) have absent: "Map_get (documents (provider sys)) D = None"
    by (auto simp: onDidChangeTextDocument_def onDidCloseTextDocument_def fire_def Map_get_delete)
  from absent_run[OF absent assms(2)]
  have later: "Map_get (documents (provider (run isBiomeEditor evs sys))) D = None" .
  have req: "fst (provideTextDocumentContent u token (provider (run isBiomeEditor evs sys))) =
              Thenable \<lparr>closure_uri = u, closure_documentUri = D\<rparr> \<and>
            client_sent (session (snd (provideTextDocumentContent u token
                (provider (run isBiomeEditor evs sys))))) =
              client_sent (session (provider (run isBiomeEditor evs sys))) @
                [(\<lparr>textDocument_uri = D\<rparr>, token)]"
    if a: "editor (session (provider (run isBiomeEditor evs sys))) = Some ed"
      and b: "toString (uri (document ed)) = D"
  proof -
    from later b
    have "Map_get (documents (provider (run isBiomeEditor evs sys))) (toString (uri (document ed))) = None"
      by simp
    from provide_miss[OF a this, of u token] b show ?thesis by simp
  qed
  from absent later req show ?thesis by blast
qed

theorem invalidated_document_is_fetched_once_witness:
  "provider (step accepts_typescript (ChangeTextDocument (TextDocumentChangeEvent doc_a))
      (run accepts_typescript two_documents (boot idle))) =
     onDidChangeTextDocument (TextDocumentChangeEvent doc_a)
       (provider (run accepts_typescript two_documents (boot idle))) \<and>
   Map_get (documents (provider (run accepts_typescript two_documents (boot idle))))
     ''file:///a.ts'' = Some tree_a \<and>
   quiet_for ''file:///a.ts'' accepts_typescript [RequestSettled 0 (Fulfilled ''TREE(b)'')]
     (step accepts_typescript (ChangeTextDocument (TextDocumentChangeEvent doc_a))
        (run accepts_typescript two_documents (boot idle))) \<and>
   Map_get (documents (provider (run accepts_typescript [RequestSettled 0 (Fulfilled ''TREE(b)'')]
     (step accepts_typescript (ChangeTextDocument (TextDocumentChangeEvent doc_a))
        (run accepts_typescript two_documents (boot idle)))))) ''file:///a.ts'' = None \<and>
   Map_get (documents (provider (run accepts_typescript [RequestSettled 0 (Fulfilled ''TREE(b)'')]
     (step accepts_typescript (ChangeTextDocument (TextDocumentChangeEvent doc_a))
        (run accepts_typescript two_documents (boot idle)))))) ''file:///b.py'' = Some tree_b \<and>
   client_sent (session (snd (provideTextDocumentContent provider_uri token0
     (provider (run accepts_typescript [RequestSettled 0 (Fulfilled ''TREE(b)'')]
       (step accepts_typescript (ChangeTextDocument (TextDocumentChangeEvent doc_a))
          (run accepts_typescript two_documents (boot idle)))))))) =
     [(\<lparr>textDocument_uri = ''file:///b.py''\<rparr>, token0),
      (\<lparr>textDocument_uri = ''file:///a.ts''\<rparr>, token0),
      (\<lparr>textDocument_uri = ''file:///a.ts''\<rparr>, token0)] \<and>
   Map_get (documents (onDidCloseTextDocument (Some doc_a) cached_ab)) ''file:///a.ts'' = None \<and>
   client_sent (session (snd (provideTextDocumentContent provider_uri token0
          (onDidCloseTextDocument (Some doc_a) cached_ab)))) =
     [(\<lparr>textDocument_uri = ''file:///a.ts''\<rparr>, token0)]"
proof -
  let ?sys = "step accepts_typescript (ChangeTextDocument (TextDocumentChangeEvent doc_a))
      (run accepts_typescript two_documents (boot idle))"
  let ?evs = "[RequestSettled 0 (Fulfilled ''TREE(b)'')]"
  let ?closed = "\<lparr>provider = onDidCloseTextDocument (Some doc_a) cached_ab, inflight = [],
                   journal = []\<rparr>"
  have D: "toString (uri doc_a) = ''file:///a.ts''" by (simp add: doc_a_def)
  have ed: "toString (uri (document ed_a)) = ''file:///a.ts''" by (simp add: ed_a_def doc_a_def)
  have h1: "provider ?sys = onDidChangeTextDocument (TextDocumentChangeEvent doc_a)
       (provider (run accepts_typescript two_documents (boot idle))) \<and>
      ''file:///a.ts'' = toString (uri (event_document (TextDocumentChangeEvent doc_a)))
    \<or> provider ?sys = onDidCloseTextDocument (Some doc_a)
       (provider (run accepts_typescript two_documents (boot idle))) \<and>
      ''file:///a.ts'' = toString (uri doc_a)"
    by (simp add: D)
  have q1: "quiet_for ''file:///a.ts'' accepts_typescript ?evs ?sys"
    unfolding two_documents_end by simp
  have after: "provider (run accepts_typescript ?evs ?sys) =
     \<lparr>session = \<lparr>editor = Some ed_a,
                     client_sent = [(\<lparr>textDocument_uri = ''file:///b.py''\<rparr>, token0),
                                    (\<lparr>textDocument_uri = ''file:///a.ts''\<rparr>, token0)]\<rparr>,
                  eventEmitter = [provider_uri], documents = [(''file:///b.py'', tree_b)]\<rparr>"
    unfolding two_documents_end
    by (simp add: onDidChangeTextDocument_def fire_def Map_delete_def
        settle_fulfilled Map_set_def doc_a_def tree_a_def tree_b_def)
  have before: "Map_get (documents (provider (run accepts_typescript two_documents (boot idle))))
     ''file:///a.ts'' = Some tree_a"
    unfolding two_documents_end by (simp add: Map_get_def)
  have h2: "provider ?closed = onDidChangeTextDocument (TextDocumentChangeEvent doc_a) cached_ab \<and>
      ''file:///a.ts'' = toString (uri (event_document (TextDocumentChangeEvent doc_a)))
    \<or> provider ?closed = onDidCloseTextDocument (Some doc_a) cached_ab \<and>
      ''file:///a.ts'' = toString (uri doc_a)"
    by (simp add: D)
  have q2: "quiet_for ''file:///a.ts'' accepts_typescript [] ?closed" by simp
  have e2: "editor (session (onDidCloseTextDocument (Some doc_a) cached_ab)) = Some ed_a"
    by (simp add: onDidCloseTextDocument_def fire_def cached_ab_def on_a_def)
  have s2: "client_sent (session (onDidCloseTextDocument (Some doc_a) cached_ab)) = []"
    by (simp add: onDidCloseTextDocument_def fire_def cached_ab_def on_a_def)
  have b: "Map_get (documents (provider (run accepts_typescript ?evs ?sys))) ''file:///b.py'' = Some tree_b"
    unfolding after by (simp add: Map_get_def)
  have e1: "editor (session (provider (run accepts_typescript ?evs ?sys))) = Some ed_a"
    unfolding after by simp
  have s1: "client_sent (session (provider (run accepts_typescript ?evs ?sys))) =
      [(\<lparr>textDocument_uri = ''file:///b.py''\<rparr>, token0),
       (\<lparr>textDocument_uri = ''file:///a.ts''\<rparr>, token0)]"
    unfolding after by simp
  note t1 = invalidated_document_is_fetched_once[OF h1 q1, of ed_a provider_uri token0]
  note t2 = invalidated_document_is_fetched_once[OF h2 q2, of ed_a provider_uri token0]
  have c1: "Map_get (documents (provider (run accepts_typescript ?evs ?sys))) ''file:///a.ts'' = None"
    using t1 by blast
  have c2: "client_sent (session (snd (provideTextDocumentContent provider_uri token0
     (provider (run accepts_typescript ?evs ?sys))))) =
     [(\<lparr>textDocument_uri = ''file:///b.py''\<rparr>, token0),
      (\<lparr>textDocument_uri = ''file:///a.ts''\<rparr>, token0),
      (\<lparr>textDocument_uri = ''file:///a.ts''\<rparr>, token0)]"
    using t1 e1 ed s1 by simp
  have c3: "Map_get (documents (onDidCloseTextDocument (Some doc_a) cached_ab)) ''file:///a.ts'' = None"
    using t2 by simp
  have c4: "client_sent (session (snd (provideTextDocumentContent provider_uri token0
          (onDidCloseTextDocument (Some doc_a) cached_ab)))) =
     [(\<lparr>textDocument_uri = ''file:///a.ts''\<rparr>, token0)]"
    using t2 e2 ed s2 by simp
  have c0: "provider ?sys = onDidChangeTextDocument (TextDocumentChangeEvent doc_a)
       (provider (run accepts_typescript two_documents (boot idle)))" by simp
  from c0 before q1 c1 b c2 c3 c4 show ?thesis by blast
qed

text \<open>
  C3. When the request settles as a failure or as a cancellation, the promise returned by
  \<open>provideTextDocumentContent\<close> is rejected with the same reason, and the provider, its
  cache included, is what it was: nothing is written for any identity.
\<close>

theorem rejection_is_propagated_and_nothing_cached:
  "fst (settle c (Rejected r) this) = Rejected r \<and>
   snd (settle c (Rejected r) this) = this \<and>
   Map_get (documents (snd (settle c (Rejected r) this))) D = Map_get (documents this) D"
  by (simp add: settle_rejected)

text \<open>
  C5. The active-editor-changed handler fires the notifier, with the provider's own uri,
  exactly when the editor is present and the classifier accepts it; the cache is
  unchanged in every case.
\<close>

theorem active_editor_change_fires_iff_relevant:
  "documents (onDidChangeActiveTextEditor isBiomeEditor ed this) = documents this \<and>
   eventEmitter (onDidChangeActiveTextEditor isBiomeEditor ed this) =
     (if (\<exists>e. ed = Some e \<and> isBiomeEditor e) then eventEmitter this @ [provider_uri]
      else eventEmitter this)"
  by (cases ed) (simp_all add: onDidChangeActiveTextEditor_def fire_def)

text \<open>
  C6. With no active editor in the session, \<open>provideTextDocumentContent\<close> returns
  \<open>undefined\<close> whatever the cache holds, and the provider is left as it was: no request
  sent, no cache entry written, no error.
\<close>

theorem no_editor_no_content:
  assumes "editor (session this) = None"
  shows "provideTextDocumentContent u token this = (Undefined, this)"
  using assms by (simp add: provideTextDocumentContent_def)

theorem no_editor_no_content_witness:
  "editor (session (cached_ab\<lparr>session := idle\<rparr>)) = None \<and>
   provideTextDocumentContent provider_uri token0 (cached_ab\<lparr>session := idle\<rparr>) =
     (Undefined, cached_ab\<lparr>session := idle\<rparr>)"
proof -
  have e: "editor (session (cached_ab\<lparr>session := idle\<rparr>)) = None" by (simp add: idle_def)
  from no_editor_no_content[OF e, of provider_uri token0] e show ?thesis by simp
qed

text \<open>
  C7. For distinct identities \<open>D1\<close> and \<open>D2\<close>, the document-changed handler for \<open>D1\<close>,
  the document-closed handler for \<open>D1\<close> and the removal of \<open>D1\<close> from the cache leave
  the lookup of \<open>D2\<close> as it was.
\<close>

theorem invalidation_is_scoped:
  assumes "D1 \<noteq> D2"
  shows "(toString (uri (event_document event)) = D1 \<longrightarrow>
            Map_get (documents (onDidChangeTextDocument event this)) D2 = Map_get (documents this) D2) \<and>
         (toString (uri doc) = D1 \<longrightarrow>
            Map_get (documents (onDidCloseTextDocument (Some doc) this)) D2 = Map_get (documents this) D2) \<and>
         Map_get (Map_delete (documents this) D1) D2 = Map_get (documents this) D2"
  using assms
  by (auto simp: onDidChangeTextDocument_def onDidCloseTextDocument_def fire_def Map_get_delete)

theorem invalidation_is_scoped_witness:
  "''file:///a.ts'' \<noteq> ''file:///b.py'' \<and>
   Map_get (documents (onDidChangeTextDocument (TextDocumentChangeEvent doc_a) cached_ab)) ''file:///b.py'' = Some tree_b \<and>
   Map_get (documents (onDidCloseTextDocument (Some doc_a) cached_ab)) ''file:///b.py'' = Some tree_b \<and>
   Map_get (Map_delete (documents cached_ab) ''file:///a.ts'') ''file:///b.py'' = Some tree_b"
proof -
  have n: "''file:///a.ts'' \<noteq> ''file:///b.py''" by simp
  have D: "toString (uri doc_a) = ''file:///a.ts''" by (simp add: doc_a_def)
  have b: "Map_get (documents cached_ab) ''file:///b.py'' = Some tree_b"
    by (simp add: cached_ab_def Map_get_def)
  from invalidation_is_scoped[OF n, of "TextDocumentChangeEvent doc_a" cached_ab doc_a] D b
  show ?thesis by simp
qed

text \<open>
  C8. \<open>provideDocumentLinks\<close> returns the empty list of links when the cache has an entry
  for the document's identity, and \<open>undefined\<close> otherwise.
\<close>

theorem links_empty_iff_cached:
  "provideDocumentLinks doc this =
     (if Map_get (documents this) (toString (uri doc)) \<noteq> None then Some [] else None)"
  by (simp add: provideDocumentLinks_def split: option.splits)

text \<open>
  C9. After \<open>dispose\<close> the cache has no entry for any identity.
\<close>

theorem dispose_clears_cache:
  "Map_get (documents (dispose this)) D = None \<and> documents (dispose this) = []"
  by (simp add: dispose_def Map_clear_def Map_get_def)



text \<open>
  C4, as the spec states it, fails. In \<open>overlapping_run\<close> two fetches for \<open>a.ts\<close> are in
  flight together; the one issued last is cancelled, the earlier one is fulfilled after
  \<open>a.ts\<close> was edited. The cache then holds an entry for \<open>a.ts\<close>, although the fetch
  issued last for \<open>a.ts\<close> did not succeed, and although \<open>a.ts\<close> was invalidated after
  the fetch that did succeed was issued.
\<close>

theorem cache_entry_in_overlapping_run_counterexample:
  "Map_get (documents (provider (run accepts_typescript overlapping_run (boot idle))))
     ''file:///a.ts'' = Some tree_a \<and>
   last_issued ''file:///a.ts'' (journal (run accepts_typescript overlapping_run (boot idle))) = Some 1 \<and>
   \<not> last_fetch_succeeded ''file:///a.ts''
       (journal (run accepts_typescript overlapping_run (boot idle))) \<and>
   \<not> valid_since_issue 0 ''file:///a.ts''
       (journal (run accepts_typescript overlapping_run (boot idle)))"
  by (simp add: overlapping_run_end Map_get_def last_fetch_succeeded_def)

text \<open>
  C4, amended. In every state the provider reaches from its construction, by any sequence
  of events, the cache holds at most one entry per identity, and an entry for \<open>D\<close> means
  that some fetch issued for \<open>D\<close> was fulfilled and \<open>D\<close> has not been invalidated (by an
  edit, a close or disposal) since that fetch completed.
\<close>

theorem cache_entry_has_a_successful_fetch:
  "entries_for D (documents (provider (run isBiomeEditor evs (boot s)))) \<le> 1 \<and>
   (Map_get (documents (provider (run isBiomeEditor evs (boot s)))) D \<noteq> None \<longrightarrow>
      some_fetch_succeeded D (journal (run isBiomeEditor evs (boot s))))"
proof -
  have "sound (run isBiomeEditor evs (boot s))"
    by (rule sound_run) (rule sound_boot)
  then show ?thesis
    using entries_for_distinct[of "documents (provider (run isBiomeEditor evs (boot s)))" D]
    by (simp add: sound_def)
qed

theorem cache_entry_has_a_successful_fetch_witness:
  "Map_get (documents (provider (run accepts_typescript overlapping_run (boot idle))))
     ''file:///a.ts'' \<noteq> None \<and>
   entries_for ''file:///a.ts''
     (documents (provider (run accepts_typescript overlapping_run (boot idle)))) \<le> 1 \<and>
   some_fetch_succeeded ''file:///a.ts''
     (journal (run accepts_typescript overlapping_run (boot idle)))"
proof -
  have p: "Map_get (documents (provider (run accepts_typescript overlapping_run (boot idle))))
     ''file:///a.ts'' \<noteq> None"
    by (simp add: overlapping_run_end Map_get_def)
  from cache_entry_has_a_successful_fetch[of "''file:///a.ts''" accepts_typescript overlapping_run idle] p
  show ?thesis by blast
qed

end
